theory Spec2Isabelle
  imports Complex_Main
begin

section \<open>Stream URL resolution (utils/jellyfin/media/getStreamUrl.ts)\<close>

subsection \<open>Data\<close>

text \<open>
  JavaScript strings are \<open>string\<close>; a value that may be \<open>null\<close> or \<open>undefined\<close> is an
  \<open>option\<close>. Only the fields that \<open>getStreamUrl\<close> reads are kept in the records.
\<close>

record api_client =
  basePath :: string
  deviceInfo_id :: string
  accessToken :: string

record base_item =
  item_Id :: "string option"
  MediaType :: "string option"

record media_source_info =
  ms_Id :: "string option"
  SupportsDirectPlay :: "bool option"
  TranscodingUrl :: "string option"

record playback_info_response =
  MediaSources :: "media_source_info list option"
  PlaySessionId :: "string option"

text \<open>The body of the POST to \<open>/Items/{itemId}/PlaybackInfo\<close> (lines 46-67).\<close>

record 'p playback_info_request =
  req_url :: string
  DeviceProfile :: 'p
  req_UserId :: string
  MaxStreamingBitrate :: "int option"
  StartTimeTicks :: int
  EnableTranscoding :: "bool option"
  AutoOpenLiveStream :: bool
  req_MediaSourceId :: string
  AllowVideoStreamCopy :: bool
  AudioStreamIndex :: int
  SubtitleStreamIndex :: "int option"

text \<open>The destructured parameter object of \<open>getStreamUrl\<close>, defaults already applied.\<close>

record 'p stream_args =
  api :: "api_client option"
  item :: "base_item option"
  userId :: "string option"
  startTimeTicks :: int
  maxStreamingBitrate :: "int option"
  sessionData :: playback_info_response
  deviceProfile :: 'p
  audioStreamIndex :: int
  subtitleStreamIndex :: "int option"
  forceDirectPlay :: bool
  height :: "int option"
  mediaSourceId :: "string option"

text \<open>
  The three \<open>throw new Error(...)\<close> of the function, a rejected request, and the
  \<open>TypeError\<close> of calling \<open>find\<close> on a response without \<open>MediaSources\<close>.
\<close>

datatype stream_error =
  No_media_source | No_PlaySessionId | No_url | Request_failed | Type_error

subsection \<open>JavaScript helpers\<close>

text \<open>\<open>!s\<close> for a string that may be null or undefined: the empty string is falsy too.\<close>

definition truthy :: "string option \<Rightarrow> bool" where
  "truthy s = (case s of None \<Rightarrow> False | Some v \<Rightarrow> v \<noteq> [])"

text \<open>\<open>n ? a : b\<close> for a number that may be undefined: zero is falsy.\<close>

definition truthy_num :: "int option \<Rightarrow> bool" where
  "truthy_num n = (case n of None \<Rightarrow> False | Some v \<Rightarrow> v \<noteq> 0)"

definition digit_char :: "nat \<Rightarrow> char" where
  "digit_char d = ''0123456789'' ! (d mod 10)"

text \<open>
  Template interpolation \<open>${n}\<close> of a stream index: an integer prints in decimal, with a
  minus sign when negative (stream indices stay far below the magnitude where JavaScript
  switches to exponent notation), and \<open>undefined\<close> prints as the word.
\<close>

function decimal :: "nat \<Rightarrow> string" where
  "decimal n = (if 10 \<le> n then decimal (n div 10) @ [digit_char n] else [digit_char n])"
  by pat_completeness auto
termination
  by (relation "measure (\<lambda>n. n)") auto

declare decimal.simps [simp del]

definition number_string :: "int \<Rightarrow> string" where
  "number_string i = (if 0 \<le> i then decimal (nat i) else CHR ''-'' # decimal (nat (- i)))"

definition template_num :: "int option \<Rightarrow> string" where
  "template_num n = (case n of None \<Rightarrow> ''undefined'' | Some i \<Rightarrow> number_string i)"

subsection \<open>The function\<close>

text \<open>Lines 87-101: the entries handed to \<open>URLSearchParams\<close>, in source order.\<close>

definition audio_search_params :: "api_client \<Rightarrow> string \<Rightarrow> string \<Rightarrow> (string \<times> string) list" where
  "audio_search_params a uid sid =
     [(''UserId'', uid),
      (''DeviceId'', deviceInfo_id a),
      (''MaxStreamingBitrate'', ''140000000''),
      (''Container'', ''opus,webm|opus,mp3,aac,m4a|aac,m4b|aac,flac,webma,webm|webma,wav,ogg''),
      (''TranscodingContainer'', ''mp4''),
      (''TranscodingProtocol'', ''hls''),
      (''AudioCodec'', ''aac''),
      (''api_key'', accessToken a),
      (''PlaySessionId'', sid),
      (''StartTimeTicks'', ''0''),
      (''EnableRedirection'', ''true''),
      (''EnableRemoteMedia'', ''false'')]"

text \<open>Line 85: the static-stream template for video items.\<close>

definition video_url ::
  "api_client \<Rightarrow> string \<Rightarrow> string \<Rightarrow> string option \<Rightarrow> int option \<Rightarrow> int \<Rightarrow> string" where
  "video_url a itemId sid msId sub aud =
     basePath a @ ''/Videos/'' @ itemId @ ''/stream.mp4?playSessionId='' @ sid
       @ ''&mediaSourceId='' @ (case msId of None \<Rightarrow> ''undefined'' | Some m \<Rightarrow> m)
       @ ''&static=true&subtitleStreamIndex='' @ template_num sub
       @ ''&audioStreamIndex='' @ number_string aud
       @ ''&deviceId='' @ deviceInfo_id a
       @ ''&api_key='' @ accessToken a"

text \<open>
  Lines 81-108: the choice of the URL; \<open>None\<close> is the \<open>url\<close> variable left undefined.
  \<open>usp\<close> is \<open>URLSearchParams.prototype.toString\<close>, a platform function.
\<close>

definition select_url ::
  "((string \<times> string) list \<Rightarrow> string) \<Rightarrow> api_client \<Rightarrow> string \<Rightarrow> string \<Rightarrow> string
     \<Rightarrow> string option \<Rightarrow> int option \<Rightarrow> int \<Rightarrow> bool \<Rightarrow> media_source_info \<Rightarrow> string option" where
  "select_url usp a itemId uid sid mtype sub aud force ms =
     (if SupportsDirectPlay ms = Some True \<or> force then
        (if mtype = Some ''Video'' then Some (video_url a itemId sid (ms_Id ms) sub aud)
         else if mtype = Some ''Audio'' then
           Some (basePath a @ ''/Audio/'' @ itemId @ ''/universal?''
                   @ usp (audio_search_params a uid sid))
         else None)
      else if truthy (TranscodingUrl ms) then
        (case TranscodingUrl ms of None \<Rightarrow> None | Some t \<Rightarrow> Some (basePath a @ t))
      else None)"

text \<open>Lines 69-71: the first source whose \<open>Id\<close> is identical to the requested id.\<close>

definition find_media_source :: "string \<Rightarrow> media_source_info list \<Rightarrow> media_source_info option" where
  "find_media_source msid sources = find (\<lambda>source. ms_Id source = Some msid) sources"

text \<open>Lines 69-119: what happens once the response has arrived.\<close>

definition resolve_url ::
  "((string \<times> string) list \<Rightarrow> string) \<Rightarrow> api_client \<Rightarrow> string \<Rightarrow> string \<Rightarrow> string
     \<Rightarrow> 'p stream_args \<Rightarrow> string option \<Rightarrow> playback_info_response \<Rightarrow> stream_error + string option" where
  "resolve_url usp a itemId uid msid args mtype resp =
     (case MediaSources resp of
        None \<Rightarrow> Inl Type_error
      | Some sources \<Rightarrow>
        (case find_media_source msid sources of
           None \<Rightarrow> Inl No_media_source
         | Some mediaSource \<Rightarrow>
           (if \<not> truthy (PlaySessionId (sessionData args)) then Inl No_PlaySessionId
            else
              (case PlaySessionId (sessionData args) of
                 None \<Rightarrow> Inl No_PlaySessionId
               | Some sid \<Rightarrow>
                 (case select_url usp a itemId uid sid mtype (subtitleStreamIndex args)
                         (audioStreamIndex args) (forceDirectPlay args) mediaSource of
                    None \<Rightarrow> Inl No_url
                  | Some url \<Rightarrow> if url = [] then Inl No_url else Inr (Some url))))))"

definition playback_info_body ::
  "api_client \<Rightarrow> string \<Rightarrow> string \<Rightarrow> string \<Rightarrow> 'p stream_args \<Rightarrow> 'p playback_info_request" where
  "playback_info_body a itemId uid msid args =
     \<lparr> req_url = basePath a @ ''/Items/'' @ itemId @ ''/PlaybackInfo'',
       DeviceProfile = deviceProfile args,
       req_UserId = uid,
       MaxStreamingBitrate = maxStreamingBitrate args,
       StartTimeTicks = startTimeTicks args,
       EnableTranscoding = (if truthy_num (maxStreamingBitrate args) then Some True else None),
       AutoOpenLiveStream = True,
       req_MediaSourceId = msid,
       AllowVideoStreamCopy = (if truthy_num (maxStreamingBitrate args) then False else True),
       AudioStreamIndex = audioStreamIndex args,
       SubtitleStreamIndex = subtitleStreamIndex args \<rparr>"

text \<open>
  The whole function. \<open>post\<close> is the server behind \<open>api.axiosInstance.post\<close>: it answers a
  request with a response or rejects it. The result pairs the requests that were sent with
  the outcome: \<open>Inl e\<close> is a thrown error, \<open>Inr None\<close> is \<open>return null\<close>, \<open>Inr (Some u)\<close> is
  the returned URL.
\<close>

definition getStreamUrl ::
  "('p playback_info_request \<Rightarrow> stream_error + playback_info_response)
     \<Rightarrow> ((string \<times> string) list \<Rightarrow> string) \<Rightarrow> 'p stream_args
     \<Rightarrow> 'p playback_info_request list \<times> (stream_error + string option)" where
  "getStreamUrl post usp args =
     (case api args of
        None \<Rightarrow> ([], Inr None)
      | Some a \<Rightarrow>
        (if \<not> truthy (userId args) then ([], Inr None)
         else
           (case userId args of
              None \<Rightarrow> ([], Inr None)
            | Some uid \<Rightarrow>
              (case (case item args of None \<Rightarrow> None | Some it \<Rightarrow> item_Id it) of
                 None \<Rightarrow> ([], Inr None)
               | Some itemId \<Rightarrow>
                 (if itemId = [] then ([], Inr None)
                  else
                    (case mediaSourceId args of
                       None \<Rightarrow> ([], Inr None)
                     | Some msid \<Rightarrow>
                       (if msid = [] then ([], Inr None)
                        else
                          (let req = playback_info_body a itemId uid msid args in
                           (case post req of
                              Inl e \<Rightarrow> ([req], Inl e)
                            | Inr resp \<Rightarrow>
                              ([req],
                               resolve_url usp a itemId uid msid args
                                 (case item args of None \<Rightarrow> None | Some it \<Rightarrow> MediaType it)
                                 resp))))))))))"

section \<open>JavaScript numbers\<close>

text \<open>
  Times and tick counts are JavaScript numbers, that is binary64 floating-point numbers.
  A finite number is modelled by the real number it denotes, and an arithmetic operation
  of the code is the exact operation followed by \<open>binary64\<close>, the rounding to the nearest
  number with a 53-bit significand, ties going to the even significand. The exponent is
  not bounded here: results beyond \<open>2^1024\<close> or below \<open>2^-1022\<close> in magnitude, where
  JavaScript gives \<open>Infinity\<close> or a subnormal number, lie far outside playback times and
  tick counts. \<open>NaN\<close> and the infinities are not numbers of the model.
\<close>

text \<open>The integer part of the binary logarithm, rounded down and rounded up.\<close>

function floor_log2 :: "nat \<Rightarrow> nat" where
  "floor_log2 n = (if 2 \<le> n then Suc (floor_log2 (n div 2)) else 0)"
  by pat_completeness auto
termination
  by (relation "measure (\<lambda>n. n)") auto

declare floor_log2.simps [simp del]

definition ceil_log2 :: "nat \<Rightarrow> nat" where
  "ceil_log2 n = (if 2 \<le> n then Suc (floor_log2 (n - 1)) else 0)"

definition pow2 :: "int \<Rightarrow> real" where
  "pow2 q = (if 0 \<le> q then 2 ^ nat q else 1 / 2 ^ nat (- q))"

text \<open>For positive \<open>x\<close>, the exponent \<open>e\<close> with \<open>2^e \<le> x < 2^(e+1)\<close>.\<close>

definition binade :: "real \<Rightarrow> int" where
  "binade x =
     (if 1 \<le> x then int (floor_log2 (nat \<lfloor>x\<rfloor>)) else - int (ceil_log2 (nat \<lceil>1 / x\<rceil>)))"

definition round_half_even :: "real \<Rightarrow> int" where
  "round_half_even y =
     (let f = \<lfloor>y\<rfloor>; d = y - of_int f
      in if d < 1 / 2 then f else if 1 / 2 < d then f + 1 else if even f then f else f + 1)"

text \<open>A positive number has its significand scaled into 53 bits and rounded.\<close>

definition round_positive :: "real \<Rightarrow> real" where
  "round_positive x =
     (let q = binade x - 52 in of_int (round_half_even (x / pow2 q)) * pow2 q)"

definition binary64 :: "real \<Rightarrow> real" where
  "binary64 x =
     (if x = 0 then 0 else if x < 0 then - round_positive (- x) else round_positive x)"

section \<open>Playback session controller (providers/PlaybackProvider.tsx)\<close>

subsection \<open>State and effects\<close>

record currently_playing =
  cp_url :: string
  cp_item :: base_item

text \<open>
  The \<open>useState\<close> cells and refs of the provider (lines 73-87). \<open>videoRef\<close> tells whether
  \<open>videoRef.current\<close> holds a mounted video element. The last two fields are values
  captured by closures whose dependency arrays do not list them:
  \<open>setVolume\<close> (\<open>useCallback\<close> with \<open>[_setVolume]\<close>, line 99) reads \<open>volume\<close>, and the handler
  installed as \<open>ws.onmessage\<close> (effect with \<open>[ws, stopPlayback, playVideo, pauseVideo]\<close>,
  line 346) reads \<open>isPlaying\<close>. Every other callback lists all the state it reads, so it
  sees the state of the latest render. The \<open>api\<close> object is fixed context and not part of
  the state.
\<close>

record provider =
  isPlaying :: bool
  isBuffering :: bool
  isFullscreen :: bool
  progressTicks :: "real option"
  volume :: "real option"
  session :: "playback_info_response option"
  currentlyPlaying :: "currently_playing option"
  previousVolume :: "real option"
  videoRef :: bool
  setVolume_volume :: "real option"
  onmessage_isPlaying :: bool
  onmessage_deps :: "string option \<times> string option \<times> real option"

record report_progress_args =
  rp_itemId :: "string option"
  rp_positionTicks :: real
  rp_sessionId :: "string option"
  IsPaused :: bool

record report_stopped_args =
  rs_itemId :: "string option"
  rs_sessionId :: "string option"
  rs_positionTicks :: real

record progress_data =
  currentTime :: real
  playableDuration :: real

text \<open>
  What a handler does to the world outside the provider's state, in call order: calls of
  the imported reporting functions, of the video element, of the router and of
  \<open>Alert.alert\<close>, and calls handed to the two \<open>debounce\<close> wrappers (lines 222-227 and
  250-255), whose timers decide later which of them run.
\<close>

datatype effect =
    ReportPlaybackProgress report_progress_args
  | ReportPlaybackStopped report_stopped_args
  | GetPlaybackInfo string string
  | PostCapabilities string "string option"
  | Linking_openURL string
  | Alert_alert "string option" "string option"
  | Video_resume
  | Video_pause
  | Video_setVolume real
  | Video_seek real
  | Router_back
  | Debounced_setIsPlaying bool
  | Debounced_onProgress progress_data

text \<open>What the provider takes from outside: the user, the settings and the server.\<close>

record provider_env =
  user_Id :: "string option"
  openInVLC :: bool
  getPlaybackInfo :: "string \<Rightarrow> string \<Rightarrow> playback_info_response option"
  postCapabilities :: "string \<Rightarrow> string option \<Rightarrow> bool"

subsection \<open>Derived values\<close>

text \<open>\<open>currentlyPlaying?.item?.Id\<close>, \<open>session?.PlaySessionId\<close>, \<open>progressTicks ? progressTicks : 0\<close>.\<close>

definition current_item_id :: "provider \<Rightarrow> string option" where
  "current_item_id s =
     (case currentlyPlaying s of None \<Rightarrow> None | Some cp \<Rightarrow> item_Id (cp_item cp))"

definition session_id :: "provider \<Rightarrow> string option" where
  "session_id s = (case session s of None \<Rightarrow> None | Some r \<Rightarrow> PlaySessionId r)"

definition ticks_or_zero :: "provider \<Rightarrow> real" where
  "ticks_or_zero s = (case progressTicks s of None \<Rightarrow> 0 | Some t \<Rightarrow> t)"

subsection \<open>Actions\<close>

text \<open>Lines 93-100.\<close>

definition setVolume :: "real \<Rightarrow> provider \<Rightarrow> provider \<times> effect list" where
  "setVolume newVolume s =
     (s\<lparr>previousVolume := setVolume_volume s, volume := Some newVolume\<rparr>,
      if videoRef s then [Video_setVolume newVolume] else [])"

text \<open>
  Lines 121-174. The alert of the \<open>catch\<close> block offers a force-play button; pressing it is
  a later user action.
\<close>

definition playback_failed_alert :: effect where
  "playback_failed_alert =
     Alert_alert (Some ''Something went wrong'')
       (Some ''The item could not be played. Maybe there is no internet connection?'')"

definition clear_currently_playing :: "provider \<Rightarrow> provider \<times> effect list" where
  "clear_currently_playing s =
     (s\<lparr>currentlyPlaying := None, isFullscreen := False\<rparr>, [Debounced_setIsPlaying False])"

definition setCurrentlyPlayingState ::
  "provider_env \<Rightarrow> currently_playing option \<Rightarrow> provider \<Rightarrow> provider \<times> effect list" where
  "setCurrentlyPlayingState env state s =
     (case state of
        None \<Rightarrow> clear_currently_playing s
      | Some st \<Rightarrow>
        (case (item_Id (cp_item st), user_Id env) of
           (Some itemId, Some uid) \<Rightarrow>
             (if itemId = [] \<or> uid = [] then clear_currently_playing s
              else if openInVLC env then (s, [Linking_openURL (''vlc://'' @ cp_url st)])
              else
                (case getPlaybackInfo env itemId uid of
                   None \<Rightarrow> (s, [GetPlaybackInfo itemId uid, playback_failed_alert])
                 | Some res \<Rightarrow>
                   (if postCapabilities env itemId (PlaySessionId res) then
                      (s\<lparr>session := Some res, currentlyPlaying := Some st\<rparr>,
                       [GetPlaybackInfo itemId uid, PostCapabilities itemId (PlaySessionId res),
                        Debounced_setIsPlaying True])
                    else
                      (s, [GetPlaybackInfo itemId uid, PostCapabilities itemId (PlaySessionId res),
                           playback_failed_alert]))))
         | _ \<Rightarrow> clear_currently_playing s))"

text \<open>Lines 176-191 and 193-208.\<close>

definition playVideo :: "bool \<Rightarrow> provider \<Rightarrow> provider \<times> effect list" where
  "playVideo triggerRef s =
     (s\<lparr>isPlaying := True\<rparr>,
      (if triggerRef \<and> videoRef s then [Video_resume] else [])
        @ [ReportPlaybackProgress
             \<lparr> rp_itemId = current_item_id s, rp_positionTicks = ticks_or_zero s,
               rp_sessionId = session_id s, IsPaused = False \<rparr>])"

definition pauseVideo :: "bool \<Rightarrow> provider \<Rightarrow> provider \<times> effect list" where
  "pauseVideo triggerRef s =
     (s\<lparr>isPlaying := False\<rparr>,
      (if triggerRef \<and> videoRef s then [Video_pause] else [])
        @ [ReportPlaybackProgress
             \<lparr> rp_itemId = current_item_id s, rp_positionTicks = ticks_or_zero s,
               rp_sessionId = session_id s, IsPaused = True \<rparr>])"

text \<open>
  Lines 210-220. The item id, the session id and the position are those of the render the
  callback belongs to, read before the state is cleared.
\<close>

definition stopPlayback :: "provider_env \<Rightarrow> provider \<Rightarrow> provider \<times> effect list" where
  "stopPlayback env s =
     (let id = current_item_id s;
          (s', effs) = setCurrentlyPlayingState env None s
      in (s', effs @ [ReportPlaybackStopped
                        \<lparr> rs_itemId = id, rs_sessionId = session_id s,
                          rs_positionTicks = ticks_or_zero s \<rparr>]))"

text \<open>
  The same callback with the render it was created in, \<open>r\<close>, kept apart from the state
  \<open>s\<close> its setters act on: the item id, the session id and the position are constants of
  the closure.
\<close>

definition stopPlayback_in :: "provider_env \<Rightarrow> provider \<Rightarrow> provider \<Rightarrow> provider \<times> effect list" where
  "stopPlayback_in env r s =
     (let id = current_item_id r;
          (s', effs) = setCurrentlyPlayingState env None s
      in (s', effs @ [ReportPlaybackStopped
                        \<lparr> rs_itemId = id, rs_sessionId = session_id r,
                          rs_positionTicks = ticks_or_zero r \<rparr>]))"


text \<open>
  Lines 229-248: \<open>_onProgress\<close>, the function behind the debounced \<open>onProgress\<close>, applied
  to the \<open>currentTime\<close> of the event.
\<close>

definition onProgress_raw :: "real \<Rightarrow> provider \<Rightarrow> provider \<times> effect list" where
  "onProgress_raw t s =
     (if \<not> truthy (session_id s) \<or> \<not> truthy (current_item_id s) \<or> t = 0 then (s, [])
      else
        (let ticks = binary64 (t * 10000000)
         in (s\<lparr>progressTicks := Some ticks\<rparr>,
             [ReportPlaybackProgress
                \<lparr> rp_itemId = current_item_id s, rp_positionTicks = ticks,
                  rp_sessionId = session_id s, IsPaused = (\<not> isPlaying s) \<rparr>])))"

subsection \<open>Remote commands\<close>

text \<open>
  The parsed message: \<open>json?.Data?.Command\<close>, \<open>json?.Data?.Name\<close> and the two arguments of
  a display message. A field that is missing or not a string compares unequal to every
  command name, like \<open>None\<close>.
\<close>

record ws_message =
  Command :: "string option"
  Name :: "string option"
  Header :: "string option"
  Text :: "string option"

text \<open>
  Lines 316-345. \<open>canGoBack\<close> is the answer of \<open>router.canGoBack()\<close>. The branch on
  \<open>isPlaying\<close> reads the value the handler captured.
\<close>

definition onmessage ::
  "provider_env \<Rightarrow> bool \<Rightarrow> ws_message \<Rightarrow> provider \<Rightarrow> provider \<times> effect list" where
  "onmessage env canGoBack m s =
     (if Command m = Some ''PlayPause'' then
        (if onmessage_isPlaying s then pauseVideo True s else playVideo True s)
      else if Command m = Some ''Stop'' then
        (let (s', effs) = stopPlayback env s
         in (s', effs @ (if canGoBack then [Router_back] else [])))
      else if Command m = Some ''Mute'' then setVolume 0 s
      else if Command m = Some ''Unmute'' then
        setVolume (case previousVolume s of
                     None \<Rightarrow> 20
                   | Some v \<Rightarrow> if v = 0 then 20 else v) s
      else if Command m = Some ''SetVolume'' then (s, [])
      else if Name m = Some ''DisplayMessage'' then (s, [Alert_alert (Header m) (Text m)])
      else (s, []))"

text \<open>
  A render after a state change: the effect of line 313 installs a new handler, with the
  current \<open>isPlaying\<close>, only when one of its dependencies has changed. With the socket and
  the \<open>api\<close> fixed, that is when the item id, the session id or \<open>progressTicks\<close> has (the
  dependencies of \<open>stopPlayback\<close>, \<open>playVideo\<close> and \<open>pauseVideo\<close>, lines 190, 207 and 220);
  a change of \<open>isPlaying\<close> alone installs nothing.
\<close>

definition render :: "provider \<Rightarrow> provider" where
  "render s =
     (let d = (current_item_id s, session_id s, progressTicks s)
      in if d = onmessage_deps s then s
         else s\<lparr>onmessage_isPlaying := isPlaying s, onmessage_deps := d\<rparr>)"

section \<open>Player UI (FullScreenVideoPlayer)\<close>

text \<open>The shared values and local state of the scrub bar (lines 67-82).\<close>

record player_ui =
  isSeeking :: bool
  progress :: real
  cacheProgress :: real
  isBufferingState :: bool

text \<open>
  Lines 234-244. \<open>secondsToTicks\<close> is imported from the module \<open>@/utils/secondsToTicks\<close>
  and is taken as a parameter.
\<close>

definition handleVideoProgress ::
  "(real \<Rightarrow> real) \<Rightarrow> progress_data \<Rightarrow> player_ui \<times> provider
     \<Rightarrow> (player_ui \<times> provider) \<times> effect list" where
  "handleVideoProgress secondsToTicks data st =
     (case st of (ui, p) \<Rightarrow>
        if isSeeking ui then (st, [])
        else
          ((ui\<lparr>progress := secondsToTicks (currentTime data),
               cacheProgress := secondsToTicks (playableDuration data),
               isBufferingState := (playableDuration data = 0)\<rparr>,
            p\<lparr>isBuffering := (playableDuration data = 0)\<rparr>),
           [Debounced_onProgress data]))"

text \<open>Lines 261-265.\<close>

definition handleSliderComplete ::
  "real \<Rightarrow> player_ui \<times> provider \<Rightarrow> (player_ui \<times> provider) \<times> effect list" where
  "handleSliderComplete v st =
     (case st of (ui, p) \<Rightarrow>
        ((ui\<lparr>progress := v, isSeeking := False\<rparr>, p),
         if videoRef p then [Video_seek (binary64 (v / 10000000))] else []))"

text \<open>
  Lines 271-274. The callback has an empty dependency array, so \<open>showControls\<close> is the
  value of the first render, passed here as the first argument.
\<close>

definition handleSliderStart :: "bool \<Rightarrow> player_ui \<Rightarrow> player_ui" where
  "handleSliderStart showControls ui = (if \<not> showControls then ui else ui\<lparr>isSeeking := True\<rparr>)"

text \<open>A run of progress events delivered by the video element, one after the other.\<close>

fun handleVideoProgress_events ::
  "(real \<Rightarrow> real) \<Rightarrow> progress_data list \<Rightarrow> player_ui \<times> provider
     \<Rightarrow> (player_ui \<times> provider) \<times> effect list" where
  "handleVideoProgress_events secondsToTicks [] st = (st, [])"
| "handleVideoProgress_events secondsToTicks (d # ds) st =
     (case handleVideoProgress secondsToTicks d st of
        (st1, effs1) \<Rightarrow>
          (case handleVideoProgress_events secondsToTicks ds st1 of
             (st2, effs2) \<Rightarrow> (st2, effs1 @ effs2)))"

section \<open>Reading effect traces\<close>

text \<open>The calls of \<open>reportPlaybackStopped\<close> and of \<open>reportPlaybackProgress\<close> in a trace.\<close>

fun stop_reports :: "effect list \<Rightarrow> report_stopped_args list" where
  "stop_reports [] = []"
| "stop_reports (ReportPlaybackStopped a # es) = a # stop_reports es"
| "stop_reports (e # es) = stop_reports es"



section \<open>Example inputs\<close>

definition demo_api :: api_client where
  "demo_api = \<lparr> basePath = ''http://srv'', deviceInfo_id = ''dev1'', accessToken = ''tok'' \<rparr>"

definition source_transcode :: media_source_info where
  "source_transcode =
     \<lparr> ms_Id = Some ''m1'', SupportsDirectPlay = Some False,
       TranscodingUrl = Some ''/videos/i1/master.m3u8'' \<rparr>"

definition source_direct :: media_source_info where
  "source_direct =
     \<lparr> ms_Id = Some ''m1'', SupportsDirectPlay = Some True,
       TranscodingUrl = Some ''/videos/i1/master.m3u8'' \<rparr>"

definition server_transcode ::
  "unit playback_info_request \<Rightarrow> stream_error + playback_info_response" where
  "server_transcode req =
     Inr \<lparr> MediaSources = Some [source_transcode], PlaySessionId = Some ''ps1'' \<rparr>"

definition server_direct ::
  "unit playback_info_request \<Rightarrow> stream_error + playback_info_response" where
  "server_direct req =
     Inr \<lparr> MediaSources = Some [source_direct], PlaySessionId = Some ''ps1'' \<rparr>"

definition server_no_sources ::
  "unit playback_info_request \<Rightarrow> stream_error + playback_info_response" where
  "server_no_sources req = Inr \<lparr> MediaSources = Some [], PlaySessionId = None \<rparr>"

text \<open>A serializer that joins the entries without escaping.\<close>

definition plain_query :: "(string \<times> string) list \<Rightarrow> string" where
  "plain_query kvs = concat (map (\<lambda>(k, v). k @ ''='' @ v @ ''&'') kvs)"

definition video_item :: base_item where
  "video_item = \<lparr> item_Id = Some ''i1'', MediaType = Some ''Video'' \<rparr>"

definition book_item :: base_item where
  "book_item = \<lparr> item_Id = Some ''i1'', MediaType = Some ''Book'' \<rparr>"

definition demo_args :: "unit stream_args" where
  "demo_args =
     \<lparr> api = Some demo_api, item = Some video_item, userId = Some ''u1'',
       startTimeTicks = 0, maxStreamingBitrate = None,
       sessionData = \<lparr> MediaSources = None, PlaySessionId = Some ''ps1'' \<rparr>,
       deviceProfile = (), audioStreamIndex = 1, subtitleStreamIndex = None,
       forceDirectPlay = False, height = None, mediaSourceId = Some ''m1'' \<rparr>"

text \<open>The same call with \<open>forceDirectPlay: true\<close>.\<close>

definition demo_args_forced :: "unit stream_args" where
  "demo_args_forced = demo_args\<lparr>forceDirectPlay := True\<rparr>"

text \<open>The same call with a session response that carries no \<open>PlaySessionId\<close>.\<close>

definition demo_args_no_session :: "unit stream_args" where
  "demo_args_no_session =
     demo_args\<lparr>sessionData := \<lparr> MediaSources = None, PlaySessionId = None \<rparr>\<rparr>"

text \<open>The same call for an item that is neither video nor audio.\<close>

definition demo_args_book :: "unit stream_args" where
  "demo_args_book = demo_args\<lparr>item := Some book_item\<rparr>"

text \<open>The call for the book with a session response that carries no \<open>PlaySessionId\<close>.\<close>

definition demo_args_book_no_session :: "unit stream_args" where
  "demo_args_book_no_session =
     demo_args_book\<lparr>sessionData := \<lparr> MediaSources = None, PlaySessionId = None \<rparr>\<rparr>"

text \<open>The same call without a user.\<close>

definition demo_args_no_user :: "unit stream_args" where
  "demo_args_no_user = demo_args\<lparr>userId := None\<rparr>"

text \<open>The provider as first rendered: the initial values of lines 73-87.\<close>

definition initial_provider :: provider where
  "initial_provider =
     \<lparr> isPlaying = False, isBuffering = False, isFullscreen = False,
       progressTicks = Some 0, volume = None, session = None, currentlyPlaying = None,
       previousVolume = None, videoRef = False, setVolume_volume = None,
       onmessage_isPlaying = False, onmessage_deps = (None, None, Some 0) \<rparr>"

definition demo_getPlaybackInfo :: "string \<Rightarrow> string \<Rightarrow> playback_info_response option" where
  "demo_getPlaybackInfo itemId uid =
     Some \<lparr> MediaSources = Some [source_direct], PlaySessionId = Some ''ps1'' \<rparr>"

definition demo_postCapabilities :: "string \<Rightarrow> string option \<Rightarrow> bool" where
  "demo_postCapabilities itemId sid = True"

definition demo_env :: provider_env where
  "demo_env =
     \<lparr> user_Id = Some ''u1'', openInVLC = False,
       getPlaybackInfo = demo_getPlaybackInfo, postCapabilities = demo_postCapabilities \<rparr>"

definition demo_playing :: currently_playing where
  "demo_playing = \<lparr> cp_url = ''http://srv/videos/i1/master.m3u8'', cp_item = video_item \<rparr>"

text \<open>
  Playback of the example item is started from the initial state: the provider stores the
  session and the item and renders, and the player mounts the video element.
\<close>

definition started_provider :: provider where
  "started_provider =
     (render (fst (setCurrentlyPlayingState demo_env (Some demo_playing) initial_provider)))
       \<lparr>videoRef := True\<rparr>"

text \<open>
  The player's effect on \<open>currentlyPlaying\<close> (lines 222-230 of the player) then calls
  \<open>playVideo()\<close>, and the provider renders again.
\<close>

definition playing_provider :: provider where
  "playing_provider = render (fst (playVideo True started_provider))"

text \<open>The volume is set to 50 through the context's \<open>setVolume\<close> while playing.\<close>

definition loud_provider :: provider where
  "loud_provider = render (fst (setVolume 50 playing_provider))"

definition playpause_message :: ws_message where
  "playpause_message =
     \<lparr> Command = Some ''PlayPause'', Name = None, Header = None, Text = None \<rparr>"

definition mute_message :: ws_message where
  "mute_message = \<lparr> Command = Some ''Mute'', Name = None, Header = None, Text = None \<rparr>"

definition unmute_message :: ws_message where
  "unmute_message = \<lparr> Command = Some ''Unmute'', Name = None, Header = None, Text = None \<rparr>"

text \<open>The loud provider after a \<open>Mute\<close> message and the render that follows it.\<close>

definition muted_provider :: provider where
  "muted_provider = render (fst (onmessage demo_env True mute_message loud_provider))"

definition idle_ui :: player_ui where
  "idle_ui = \<lparr> isSeeking = False, progress = 0, cacheProgress = 0, isBufferingState = True \<rparr>"

text \<open>A stand-in for the imported \<open>secondsToTicks\<close>.\<close>

definition demo_secondsToTicks :: "real \<Rightarrow> real" where
  "demo_secondsToTicks t = binary64 (t * 10000000)"

definition demo_progress :: progress_data where
  "demo_progress = \<lparr> currentTime = 2, playableDuration = 30 \<rparr>"

text \<open>
  Two binary64 numbers: the one written \<open>0.07\<close> in JavaScript, and the one written
  \<open>0.23356666666666667\<close>, the time of the seventh frame at 29.97 frames per second.
\<close>

definition seven_hundredths :: real where
  "seven_hundredths = 1261007895663739 / 18014398509481984"

definition seventh_frame :: real where
  "seventh_frame = 8415126023729351 / 36028797018963968"

section \<open>Properties of stream URL resolution\<close>

subsection \<open>Auxiliary facts\<close>

text \<open>
  When the four guarded arguments are present and non-empty, exactly one request is sent,
  and the outcome is decided by the response.
\<close>

lemma getStreamUrl_answered:
  assumes "api args = Some a" and "userId args = Some uid" and "uid \<noteq> []"
    and "item args = Some it" and "item_Id it = Some itemId" and "itemId \<noteq> []"
    and "mediaSourceId args = Some msid" and "msid \<noteq> []"
    and "post (playback_info_body a itemId uid msid args) = Inr resp"
  shows "getStreamUrl post usp args =
           ([playback_info_body a itemId uid msid args],
            resolve_url usp a itemId uid msid args (MediaType it) resp)"
  using assms by (simp add: getStreamUrl_def truthy_def Let_def)

lemma find_media_source_Id:
  "find_media_source msid sources = Some ms \<Longrightarrow> ms_Id ms = Some msid"
  by (auto simp: find_media_source_def find_Some_iff)

lemma find_media_source_None:
  "(find_media_source msid sources = None) = (Some msid \<notin> set (map ms_Id sources))"
  by (force simp: find_media_source_def find_None_iff)

lemma resolve_url_found:
  assumes "MediaSources resp = Some sources"
    and "find_media_source msid sources = Some ms"
    and "PlaySessionId (sessionData args) = Some sid" and "sid \<noteq> []"
  shows "resolve_url usp a itemId uid msid args mtype resp =
           (case select_url usp a itemId uid sid mtype (subtitleStreamIndex args)
                   (audioStreamIndex args) (forceDirectPlay args) ms of
              None \<Rightarrow> Inl No_url
            | Some url \<Rightarrow> if url = [] then Inl No_url else Inr (Some url))"
  using assms by (simp add: resolve_url_def truthy_def)

lemma resolve_url_cases:
  assumes "MediaSources resp = Some sources"
  shows "resolve_url usp a itemId uid msid args mtype resp =
     (case find_media_source msid sources of
        None \<Rightarrow> Inl No_media_source
      | Some ms \<Rightarrow>
          if \<not> truthy (PlaySessionId (sessionData args)) then Inl No_PlaySessionId
          else if SupportsDirectPlay ms = Some True \<or> forceDirectPlay args then
            (if mtype = Some ''Video'' \<or> mtype = Some ''Audio''
             then Inr (select_url usp a itemId uid (the (PlaySessionId (sessionData args))) mtype
                        (subtitleStreamIndex args) (audioStreamIndex args) (forceDirectPlay args) ms)
             else Inl No_url)
          else if truthy (TranscodingUrl ms)
            then Inr (Some (basePath a @ the (TranscodingUrl ms)))
            else Inl No_url)"
  using assms
  by (auto simp: resolve_url_def select_url_def truthy_def video_url_def split: option.splits)

lemma select_url_direct_nonempty:
  assumes "SupportsDirectPlay ms = Some True \<or> force"
    and "mtype = Some ''Video'' \<or> mtype = Some ''Audio''"
  shows "\<exists>u. u \<noteq> [] \<and> select_url usp a itemId uid sid mtype sub aud force ms = Some u"
  using assms by (auto simp: select_url_def video_url_def)

subsection \<open>Transcode fallback\<close>

text \<open>
  Claim C1, as amended. When the call passes the guard and is answered, the source
  matching \<open>mediaSourceId\<close> has \<open>SupportsDirectPlay = false\<close> and a non-empty
  \<open>TranscodingUrl\<close>, a non-empty \<open>PlaySessionId\<close> is present, and \<open>forceDirectPlay\<close> is not
  set, the returned URL is the API base path followed by the server's transcode URL. The
  static-stream template of the direct branch plays no part in it.
\<close>

theorem getStreamUrl_transcode_when_not_forced:
  assumes "api args = Some a" and "userId args = Some uid" and "uid \<noteq> []"
    and "item args = Some it" and "item_Id it = Some itemId" and "itemId \<noteq> []"
    and "mediaSourceId args = Some msid" and "msid \<noteq> []"
    and "post (playback_info_body a itemId uid msid args) = Inr resp"
    and "MediaSources resp = Some sources"
    and "find_media_source msid sources = Some ms"
    and "PlaySessionId (sessionData args) = Some sid" and "sid \<noteq> []"
    and "SupportsDirectPlay ms = Some False"
    and "TranscodingUrl ms = Some t" and "t \<noteq> []"
    and "\<not> forceDirectPlay args"
  shows "snd (getStreamUrl post usp args) = Inr (Some (basePath a @ t))"
proof -
  have "select_url usp a itemId uid sid (MediaType it) (subtitleStreamIndex args)
          (audioStreamIndex args) (forceDirectPlay args) ms = Some (basePath a @ t)"
    using assms(14-17) by (simp add: select_url_def truthy_def)
  moreover have "basePath a @ t \<noteq> []"
    using assms(16) by simp
  ultimately show ?thesis
    using getStreamUrl_answered [where post = post and usp = usp, OF assms(1-9)] resolve_url_found [OF assms(10-13)]
    by simp
qed

text \<open>The amended claim at the example call against a server that offers a transcode.\<close>

theorem getStreamUrl_transcode_when_not_forced_witness:
  "snd (getStreamUrl server_transcode plain_query demo_args)
     = Inr (Some ''http://srv/videos/i1/master.m3u8'')"
  using getStreamUrl_transcode_when_not_forced
    [of demo_args demo_api "''u1''" video_item "''i1''" "''m1''" server_transcode
        "\<lparr> MediaSources = Some [source_transcode], PlaySessionId = Some ''ps1'' \<rparr>"
        "[source_transcode]" source_transcode "''ps1''" "''/videos/i1/master.m3u8''" plain_query]
  by (simp add: demo_args_def demo_api_def video_item_def server_transcode_def
        source_transcode_def find_media_source_def)

text \<open>
  Claim C1 as stated fails when the caller forces direct play: the source is not directly
  playable and supplies a transcode URL, yet the static-stream template is returned
  (line 83 tests \<open>SupportsDirectPlay || forceDirectPlay === true\<close>).
\<close>

theorem getStreamUrl_forced_counterexample:
  "SupportsDirectPlay source_transcode = Some False
     \<and> TranscodingUrl source_transcode = Some ''/videos/i1/master.m3u8''
     \<and> snd (getStreamUrl server_transcode plain_query demo_args_forced)
         = Inr (Some ''http://srv/Videos/i1/stream.mp4?playSessionId=ps1&mediaSourceId=m1&static=true&subtitleStreamIndex=undefined&audioStreamIndex=1&deviceId=dev1&api_key=tok'')"
  by (simp add: getStreamUrl_def demo_args_forced_def demo_args_def demo_api_def video_item_def
        server_transcode_def source_transcode_def find_media_source_def truthy_def
        playback_info_body_def resolve_url_def select_url_def video_url_def template_num_def
        number_string_def decimal.simps digit_char_def)

subsection \<open>Outcomes of a call\<close>

text \<open>
  Claim C2, as amended. For a call that passes the guard (api present; user id, item id
  and media source id non-empty) and whose request is answered with a list of media
  sources, the checks apply in source order. The call fails with \<open>No media source\<close> exactly
  when no source carries the requested id. It fails with \<open>no PlaySessionId\<close> exactly when
  such a source exists and the session data has no non-empty \<open>PlaySessionId\<close>. It fails with
  \<open>No url\<close> exactly when the source and the session id are there and either direct play is
  supported or forced while the item is neither video nor audio, or direct play is neither
  supported nor forced and the source has no non-empty transcode URL. In every other case
  it returns a non-empty URL.
\<close>

theorem getStreamUrl_outcomes:
  assumes "api args = Some a" and "userId args = Some uid" and "uid \<noteq> []"
    and "item args = Some it" and "item_Id it = Some itemId" and "itemId \<noteq> []"
    and "mediaSourceId args = Some msid" and "msid \<noteq> []"
    and "post (playback_info_body a itemId uid msid args) = Inr resp"
    and "MediaSources resp = Some sources"
  shows "((snd (getStreamUrl post usp args) = Inl No_media_source)
            = (Some msid \<notin> set (map ms_Id sources)))
       \<and> ((snd (getStreamUrl post usp args) = Inl No_PlaySessionId)
            = (Some msid \<in> set (map ms_Id sources)
                 \<and> \<not> truthy (PlaySessionId (sessionData args))))
       \<and> ((snd (getStreamUrl post usp args) = Inl No_url)
            = (\<exists>ms. find_media_source msid sources = Some ms
                 \<and> truthy (PlaySessionId (sessionData args))
                 \<and> (if SupportsDirectPlay ms = Some True \<or> forceDirectPlay args
                     then MediaType it \<noteq> Some ''Video'' \<and> MediaType it \<noteq> Some ''Audio''
                     else \<not> truthy (TranscodingUrl ms))))
       \<and> (snd (getStreamUrl post usp args) = Inl No_media_source
            \<or> snd (getStreamUrl post usp args) = Inl No_PlaySessionId
            \<or> snd (getStreamUrl post usp args) = Inl No_url
            \<or> (\<exists>u. u \<noteq> [] \<and> snd (getStreamUrl post usp args) = Inr (Some u)))"
proof -
  let ?r = "snd (getStreamUrl post usp args)"
  have r: "?r = resolve_url usp a itemId uid msid args (MediaType it) resp"
    using getStreamUrl_answered [where post = post and usp = usp, OF assms(1-9)] by simp
  note cases = resolve_url_cases [OF assms(10), of usp a itemId uid msid args "MediaType it"]
  show ?thesis
  proof (cases "find_media_source msid sources")
    case None
    then have "?r = Inl No_media_source"
      using r cases by simp
    moreover have "Some msid \<notin> set (map ms_Id sources)"
      using None find_media_source_None [of msid sources] by blast
    ultimately show ?thesis
      using None by simp
  next
    case (Some ms)
    then have present: "Some msid \<in> set (map ms_Id sources)"
      using find_media_source_None [of msid sources] by simp
    show ?thesis
    proof (cases "truthy (PlaySessionId (sessionData args))")
      case False
      then have "?r = Inl No_PlaySessionId"
        using r cases Some by simp
      then show ?thesis
        using Some present False by simp
    next
      case True
      show ?thesis
      proof (cases "SupportsDirectPlay ms = Some True \<or> forceDirectPlay args")
        case direct: True
        show ?thesis
        proof (cases "MediaType it = Some ''Video'' \<or> MediaType it = Some ''Audio''")
          case True
          obtain u where u: "u \<noteq> []"
            "select_url usp a itemId uid (the (PlaySessionId (sessionData args))) (MediaType it)
               (subtitleStreamIndex args) (audioStreamIndex args) (forceDirectPlay args) ms = Some u"
            using select_url_direct_nonempty [OF direct True] by blast
          have "?r = Inr (Some u)"
            using r cases Some \<open>truthy (PlaySessionId (sessionData args))\<close> direct True u(2)
            by simp
          then show ?thesis
            using Some present \<open>truthy (PlaySessionId (sessionData args))\<close> direct True u(1)
            by auto
        next
          case False
          then have "?r = Inl No_url"
            using r cases Some \<open>truthy (PlaySessionId (sessionData args))\<close> direct by simp
          then show ?thesis
            using Some present \<open>truthy (PlaySessionId (sessionData args))\<close> direct False
            by auto
        qed
      next
        case nodirect: False
        show ?thesis
        proof (cases "truthy (TranscodingUrl ms)")
          case True
          then have "?r = Inr (Some (basePath a @ the (TranscodingUrl ms)))"
            using r cases Some \<open>truthy (PlaySessionId (sessionData args))\<close> nodirect by simp
          moreover have "basePath a @ the (TranscodingUrl ms) \<noteq> []"
            using True by (auto simp: truthy_def split: option.splits)
          ultimately show ?thesis
            using Some present \<open>truthy (PlaySessionId (sessionData args))\<close> nodirect True
            by auto
        next
          case False
          then have "?r = Inl No_url"
            using r cases Some \<open>truthy (PlaySessionId (sessionData args))\<close> nodirect by simp
          then show ?thesis
            using Some present \<open>truthy (PlaySessionId (sessionData args))\<close> nodirect False
            by auto
        qed
      qed
    qed
  qed
qed

text \<open>
  The amended claim at two example calls: no source with the requested id, and a source
  but no session id.
\<close>

theorem getStreamUrl_outcomes_witness:
  "snd (getStreamUrl server_no_sources plain_query demo_args) = Inl No_media_source
     \<and> snd (getStreamUrl server_transcode plain_query demo_args_no_session) = Inl No_PlaySessionId"
  using getStreamUrl_outcomes
    [of demo_args demo_api "''u1''" video_item "''i1''" "''m1''" server_no_sources
        "\<lparr> MediaSources = Some [], PlaySessionId = None \<rparr>" "[]" plain_query]
    getStreamUrl_outcomes
    [of demo_args_no_session demo_api "''u1''" video_item "''i1''" "''m1''" server_transcode
        "\<lparr> MediaSources = Some [source_transcode], PlaySessionId = Some ''ps1'' \<rparr>"
        "[source_transcode]" plain_query]
  by (simp add: demo_args_no_session_def demo_args_def demo_api_def video_item_def
        server_no_sources_def server_transcode_def source_transcode_def truthy_def)

text \<open>
  Claim C2 as stated fails where two checks would fire: the session data carries no
  \<open>PlaySessionId\<close>, but the source is missing as well, and the earlier check decides the
  error.
\<close>

theorem getStreamUrl_no_session_counterexample:
  "PlaySessionId (sessionData demo_args_no_session) = None
     \<and> snd (getStreamUrl server_no_sources plain_query demo_args_no_session) = Inl No_media_source
     \<and> snd (getStreamUrl server_no_sources plain_query demo_args_no_session) \<noteq> Inl No_PlaySessionId"
  by (simp add: getStreamUrl_def demo_args_no_session_def demo_args_def demo_api_def
        video_item_def server_no_sources_def find_media_source_def truthy_def
        playback_info_body_def resolve_url_def)

subsection \<open>Direct play of a video\<close>

text \<open>
  Claim C3. For a call that passes the guard and is answered, for an item of media type
  \<open>Video\<close> whose matching source has \<open>SupportsDirectPlay = true\<close>, with a non-empty
  \<open>PlaySessionId\<close>, the returned URL is the static-stream endpoint
  \<open>/Videos/{itemId}/stream.mp4\<close> under the base path, with the parameters \<open>playSessionId\<close>,
  \<open>mediaSourceId\<close>, \<open>static=true\<close>, \<open>subtitleStreamIndex\<close>, \<open>audioStreamIndex\<close>, \<open>deviceId\<close>
  and \<open>api_key\<close>, in this order.
\<close>

theorem getStreamUrl_direct_video:
  assumes "api args = Some a" and "userId args = Some uid" and "uid \<noteq> []"
    and "item args = Some it" and "item_Id it = Some itemId" and "itemId \<noteq> []"
    and "mediaSourceId args = Some msid" and "msid \<noteq> []"
    and "post (playback_info_body a itemId uid msid args) = Inr resp"
    and "MediaSources resp = Some sources"
    and "find_media_source msid sources = Some ms"
    and "PlaySessionId (sessionData args) = Some sid" and "sid \<noteq> []"
    and "SupportsDirectPlay ms = Some True"
    and "MediaType it = Some ''Video''"
  shows "snd (getStreamUrl post usp args) =
           Inr (Some (basePath a @ ''/Videos/'' @ itemId @ ''/stream.mp4?playSessionId='' @ sid
                  @ ''&mediaSourceId='' @ msid
                  @ ''&static=true&subtitleStreamIndex='' @ template_num (subtitleStreamIndex args)
                  @ ''&audioStreamIndex='' @ number_string (audioStreamIndex args)
                  @ ''&deviceId='' @ deviceInfo_id a
                  @ ''&api_key='' @ accessToken a))"
proof -
  have "ms_Id ms = Some msid"
    using assms(11) by (rule find_media_source_Id)
  then have "select_url usp a itemId uid sid (MediaType it) (subtitleStreamIndex args)
          (audioStreamIndex args) (forceDirectPlay args) ms
        = Some (video_url a itemId sid (Some msid) (subtitleStreamIndex args) (audioStreamIndex args))"
    using assms(14,15) by (simp add: select_url_def)
  then show ?thesis
    using getStreamUrl_answered [where post = post and usp = usp, OF assms(1-9)]
      resolve_url_found [OF assms(10-13)]
    by (simp add: video_url_def)
qed

text \<open>The claim at the example call against a server that allows direct play.\<close>

theorem getStreamUrl_direct_video_witness:
  "snd (getStreamUrl server_direct plain_query demo_args)
     = Inr (Some ''http://srv/Videos/i1/stream.mp4?playSessionId=ps1&mediaSourceId=m1&static=true&subtitleStreamIndex=undefined&audioStreamIndex=1&deviceId=dev1&api_key=tok'')"
  using getStreamUrl_direct_video
    [of demo_args demo_api "''u1''" video_item "''i1''" "''m1''" server_direct
        "\<lparr> MediaSources = Some [source_direct], PlaySessionId = Some ''ps1'' \<rparr>"
        "[source_direct]" source_direct "''ps1''" plain_query]
  by (simp add: demo_args_def demo_api_def video_item_def server_direct_def
        source_direct_def find_media_source_def template_num_def number_string_def
        decimal.simps digit_char_def)

subsection \<open>The guard\<close>

text \<open>
  Claim C9. When \<open>api\<close>, \<open>userId\<close>, \<open>item\<close>, \<open>item.Id\<close> or \<open>mediaSourceId\<close> is null or
  undefined, the function returns \<open>null\<close>: no request is sent and nothing is thrown.
\<close>

theorem getStreamUrl_guard_returns_null:
  assumes "api args = None \<or> userId args = None \<or> item args = None
             \<or> (\<exists>it. item args = Some it \<and> item_Id it = None) \<or> mediaSourceId args = None"
  shows "getStreamUrl post usp args = ([], Inr None)"
  using assms by (auto simp: getStreamUrl_def truthy_def split: option.splits)

text \<open>The claim at the example call without a user id.\<close>

theorem getStreamUrl_guard_returns_null_witness:
  "userId demo_args_no_user = None
     \<and> getStreamUrl server_direct plain_query demo_args_no_user = ([], Inr None)"
  using getStreamUrl_guard_returns_null [of demo_args_no_user server_direct plain_query]
  by (simp add: demo_args_no_user_def demo_args_def)

subsection \<open>Direct play of other media types\<close>

text \<open>
  Claim C10, as amended. For a call that passes the guard, is answered and finds the
  source, with a non-empty \<open>PlaySessionId\<close> present: when the matching source supports
  direct play, or direct play is forced, and the item is neither video nor audio, the call
  fails with \<open>No url\<close>, whatever transcode URL the source supplies: the transcode branch is
  not reached.
\<close>

theorem getStreamUrl_direct_other_type_no_url:
  assumes "api args = Some a" and "userId args = Some uid" and "uid \<noteq> []"
    and "item args = Some it" and "item_Id it = Some itemId" and "itemId \<noteq> []"
    and "mediaSourceId args = Some msid" and "msid \<noteq> []"
    and "post (playback_info_body a itemId uid msid args) = Inr resp"
    and "MediaSources resp = Some sources"
    and "find_media_source msid sources = Some ms"
    and "PlaySessionId (sessionData args) = Some sid" and "sid \<noteq> []"
    and "SupportsDirectPlay ms = Some True \<or> forceDirectPlay args"
    and "MediaType it \<noteq> Some ''Video''" and "MediaType it \<noteq> Some ''Audio''"
  shows "snd (getStreamUrl post usp args) = Inl No_url"
proof -
  have "select_url usp a itemId uid sid (MediaType it) (subtitleStreamIndex args)
          (audioStreamIndex args) (forceDirectPlay args) ms = None"
    using assms(14-16) by (auto simp: select_url_def)
  then show ?thesis
    using getStreamUrl_answered [where post = post and usp = usp, OF assms(1-9)]
      resolve_url_found [OF assms(10-13)]
    by simp
qed

text \<open>
  The amended claim at the example call for a book, where the source does offer a
  transcode URL.
\<close>

theorem getStreamUrl_direct_other_type_no_url_witness:
  "TranscodingUrl source_direct = Some ''/videos/i1/master.m3u8''
     \<and> snd (getStreamUrl server_direct plain_query demo_args_book) = Inl No_url"
  using getStreamUrl_direct_other_type_no_url
    [of demo_args_book demo_api "''u1''" book_item "''i1''" "''m1''" server_direct
        "\<lparr> MediaSources = Some [source_direct], PlaySessionId = Some ''ps1'' \<rparr>"
        "[source_direct]" source_direct "''ps1''" plain_query]
  by (simp add: demo_args_book_def demo_args_def demo_api_def book_item_def server_direct_def
        source_direct_def find_media_source_def)

section \<open>Properties of binary64 rounding\<close>

text \<open>The two logarithms are what their names say.\<close>

text \<open>
  Claim C10 as stated fails when the session data carries no \<open>PlaySessionId\<close>: the source
  supports direct play and the item is a book, but the check of line 77 comes first and the
  error is \<open>no PlaySessionId\<close>.
\<close>

theorem getStreamUrl_book_no_session_counterexample:
  "SupportsDirectPlay source_direct = Some True
     \<and> MediaType book_item = Some ''Book''
     \<and> snd (getStreamUrl server_direct plain_query demo_args_book_no_session)
         = Inl No_PlaySessionId
     \<and> snd (getStreamUrl server_direct plain_query demo_args_book_no_session) \<noteq> Inl No_url"
  by (simp add: getStreamUrl_def demo_args_book_no_session_def demo_args_book_def demo_args_def
        demo_api_def book_item_def server_direct_def source_direct_def find_media_source_def
        truthy_def playback_info_body_def resolve_url_def)

lemma floor_log2_eq: "2 ^ k \<le> n \<Longrightarrow> n < 2 ^ Suc k \<Longrightarrow> floor_log2 n = k"
proof (induction k arbitrary: n)
  case 0
  then show ?case by (simp add: floor_log2.simps)
next
  case (Suc k)
  have "2 \<le> n" using Suc.prems(1) by (simp add: le_trans[of 2 "2 * 2 ^ k"])
  moreover have "2 ^ k \<le> n div 2" using Suc.prems(1) by simp
  moreover have "n div 2 < 2 ^ Suc k" using Suc.prems(2) by simp
  ultimately show ?case using Suc.IH [of "n div 2"] by (simp add: floor_log2.simps [of n])
qed

lemma floor_log2_le: "n < 2 ^ Suc k \<Longrightarrow> floor_log2 n \<le> k"
proof (induction k arbitrary: n)
  case 0
  then show ?case by (simp add: floor_log2.simps)
next
  case (Suc k)
  have "n div 2 < 2 ^ Suc k" using Suc.prems by simp
  then have "floor_log2 (n div 2) \<le> k" by (rule Suc.IH)
  then show ?case by (simp add: floor_log2.simps [of n])
qed








text \<open>Rounding to the nearest integer moves a number by at most one half.\<close>

lemma round_half_even_of_int: "round_half_even (of_int k) = k"
  by (simp add: round_half_even_def)


text \<open>Evaluating the rounding from the exponent and the rounded significand.\<close>

lemma binary64_eval:
  assumes "0 < x" and "binade x = e" and "round_half_even (x / pow2 (e - 52)) = m"
  shows "binary64 x = of_int m * pow2 (e - 52)"
  using assms by (simp add: binary64_def round_positive_def Let_def)

text \<open>Whole numbers below \<open>2^53\<close> are binary64 numbers.\<close>

lemma binary64_of_nat:
  assumes "n < 2 ^ 53"
  shows "binary64 (real n) = real n"
proof (cases "n = 0")
  case True
  then show ?thesis by (simp add: binary64_def)
next
  case False
  define e where "e = floor_log2 n"
  have e: "e \<le> 52"
    unfolding e_def using assms by (intro floor_log2_le) simp
  have b: "binade (real n) = int e"
    using False by (simp add: binade_def e_def)
  have p: "pow2 (int e - 52) = 1 / 2 ^ (52 - e)"
  proof (cases "e = 52")
    case True
    then show ?thesis by (simp add: pow2_def)
  next
    case False
    then have "e < 52" using e by simp
    then have "nat (52 - int e) = 52 - e" by simp
    then show ?thesis using \<open>e < 52\<close> by (simp add: pow2_def)
  qed
  have m: "real n / pow2 (int e - 52) = of_int (int n * 2 ^ (52 - e))"
    by (simp add: p)
  have r: "round_half_even (real n / pow2 (int e - 52)) = int n * 2 ^ (52 - e)"
    unfolding m by (rule round_half_even_of_int)
  have "binary64 (real n) = of_int (int n * 2 ^ (52 - e)) * pow2 (int e - 52)"
    using binary64_eval [of "real n" "int e" "int n * 2 ^ (52 - e)"] False b r by simp
  then show ?thesis by (simp add: p)
qed



text \<open>
  The roundings used in the examples: 20000000 and 5 are exact; \<open>0.07 * 10000000\<close> is
  \<open>700000.0000000001\<close>; \<open>0.23356666666666667 * 10000000\<close> is \<open>2335666.6666666665\<close>, and
  that divided by 10000000 is \<open>0.23356666666666664\<close>.
\<close>

lemma binary64_examples:
  "binary64 20000000 = 20000000"
  "binary64 5 = 5"
  "binary64 (seven_hundredths * 10000000) = 6012954214400001 / 8589934592"
  "binary64 (seventh_frame * 10000000) = 5015805973845333 / 2147483648"
  "binary64 (5015805973845333 / 2147483648 / 10000000) = 4207563011864675 / 18014398509481984"
  "binary64 (5015805973845333 / 21474836480000000) = 4207563011864675 / 18014398509481984"
proof -
  show "binary64 20000000 = 20000000"
    using binary64_of_nat [of 20000000] by simp
  show "binary64 5 = 5"
    using binary64_of_nat [of 5] by simp
  show "binary64 (seven_hundredths * 10000000) = 6012954214400001 / 8589934592"
    using binary64_eval [of "seven_hundredths * 10000000" 19 6012954214400001]
    by (simp add: seven_hundredths_def binade_def floor_log2_eq [of 19] pow2_def
          round_half_even_def Let_def)
  show "binary64 (seventh_frame * 10000000) = 5015805973845333 / 2147483648"
    using binary64_eval [of "seventh_frame * 10000000" 21 5015805973845333]
    by (simp add: seventh_frame_def binade_def floor_log2_eq [of 21] pow2_def
          round_half_even_def Let_def)
  show "binary64 (5015805973845333 / 2147483648 / 10000000)
          = 4207563011864675 / 18014398509481984"
    using binary64_eval [of "5015805973845333 / 2147483648 / 10000000" "- 3" 8415126023729350]
    by (simp add: binade_def ceil_log2_def floor_log2_eq [of 2] pow2_def
          round_half_even_def Let_def)
  then show "binary64 (5015805973845333 / 21474836480000000)
          = 4207563011864675 / 18014398509481984"
    by simp
qed

section \<open>Properties of the playback session controller\<close>

subsection \<open>Auxiliary facts\<close>

lemma number_string_examples:
  "number_string 0 = ''0''" "number_string 105 = ''105''" "number_string (- 3) = ''-3''"
  by (simp_all add: number_string_def decimal.simps digit_char_def)

text \<open>A render changes neither the item nor the session.\<close>

lemma current_item_id_render: "current_item_id (render s) = current_item_id s"
  by (simp add: render_def current_item_id_def Let_def)

text \<open>\<open>stopPlayback\<close> calls \<open>setCurrentlyPlayingState(null)\<close>, which takes the else branch of line 146.\<close>

lemma stopPlayback_unfold:
  "stopPlayback env s =
     (s\<lparr>currentlyPlaying := None, isFullscreen := False\<rparr>,
      [Debounced_setIsPlaying False,
       ReportPlaybackStopped
         \<lparr> rs_itemId = current_item_id s, rs_sessionId = session_id s,
           rs_positionTicks = ticks_or_zero s \<rparr>])"
  by (simp add: stopPlayback_def setCurrentlyPlayingState_def clear_currently_playing_def)

text \<open>The example states, computed.\<close>

lemma playing_provider_eq:
  "playing_provider =
     \<lparr> isPlaying = True, isBuffering = False, isFullscreen = False,
       progressTicks = Some 0, volume = None,
       session = Some \<lparr> MediaSources = Some [source_direct], PlaySessionId = Some ''ps1'' \<rparr>,
       currentlyPlaying = Some demo_playing,
       previousVolume = None, videoRef = True, setVolume_volume = None,
       onmessage_isPlaying = False, onmessage_deps = (Some ''i1'', Some ''ps1'', Some 0) \<rparr>"
  by (simp add: playing_provider_def started_provider_def initial_provider_def demo_env_def
        demo_playing_def video_item_def demo_getPlaybackInfo_def demo_postCapabilities_def
        setCurrentlyPlayingState_def playVideo_def render_def current_item_id_def
        session_id_def Let_def)

lemma playing_provider_ids:
  "current_item_id playing_provider = Some ''i1''"
  "session_id playing_provider = Some ''ps1''"
  "ticks_or_zero playing_provider = 0"
  "isPlaying playing_provider"
  "videoRef playing_provider"
  by (simp_all add: playing_provider_eq current_item_id_def session_id_def ticks_or_zero_def
        demo_playing_def video_item_def)

lemma initial_provider_ids:
  "current_item_id initial_provider = None"
  "session_id initial_provider = None"
  "ticks_or_zero initial_provider = 0"
  by (simp_all add: initial_provider_def current_item_id_def session_id_def ticks_or_zero_def)

lemma loud_provider_eq:
  "loud_provider = playing_provider\<lparr>previousVolume := None, volume := Some 50\<rparr>"
  by (simp add: loud_provider_def setVolume_def render_def playing_provider_eq
        current_item_id_def session_id_def demo_playing_def video_item_def Let_def)

lemma muted_provider_eq:
  "muted_provider = playing_provider\<lparr>previousVolume := None, volume := Some 0\<rparr>"
  by (simp add: muted_provider_def onmessage_def mute_message_def setVolume_def render_def
        loud_provider_eq playing_provider_eq current_item_id_def session_id_def
        demo_playing_def video_item_def Let_def)

subsection \<open>Stopping\<close>

text \<open>A call from the render the provider is in is the callback applied to its own state.\<close>

lemma stopPlayback_in_same: "stopPlayback_in env s s = stopPlayback env s"
  by (simp add: stopPlayback_in_def stopPlayback_def)


text \<open>
  \<open>stopPlayback\<close> has no guard of its own: every call passes the item id it holds to
  \<open>reportPlaybackStopped\<close>, also when there is none, where the sibling \<open>_onProgress\<close> returns
  before reporting. After a stop and the render that follows it, the callback holds no
  item id.
\<close>

lemma stopPlayback_after_render:
  "map rs_itemId (stop_reports (snd (stopPlayback env (render (fst (stopPlayback env s))))))
     = [None]"
  by (simp add: stopPlayback_unfold current_item_id_render)
     (simp add: current_item_id_def)


subsection \<open>Progress reports\<close>

text \<open>
  Claim C5. For every progress event handled by \<open>_onProgress\<close>: when the session has no
  (non-empty) \<open>PlaySessionId\<close>, or there is no (non-empty) current item id, or the position
  is exactly zero, nothing is reported and the state, \<open>progressTicks\<close> included, stays as it
  was. Otherwise \<open>reportPlaybackProgress\<close> is called exactly once, with the current item
  and session, the position in ticks (the product \<open>currentTime * 10000000\<close> as JavaScript
  computes it) and \<open>IsPaused\<close> the negation of \<open>isPlaying\<close>, and \<open>progressTicks\<close> becomes
  that position.
\<close>

theorem onProgress_raw_guard:
  "(\<not> truthy (session_id s) \<or> \<not> truthy (current_item_id s) \<or> t = 0
      \<longrightarrow> onProgress_raw t s = (s, []))
   \<and> (truthy (session_id s) \<and> truthy (current_item_id s) \<and> t \<noteq> 0
      \<longrightarrow> snd (onProgress_raw t s)
            = [ReportPlaybackProgress
                 \<lparr> rp_itemId = current_item_id s,
                   rp_positionTicks = binary64 (t * 10000000),
                   rp_sessionId = session_id s, IsPaused = (\<not> isPlaying s) \<rparr>]
          \<and> fst (onProgress_raw t s)
              = s\<lparr>progressTicks := Some (binary64 (t * 10000000))\<rparr>)"
  by (simp add: onProgress_raw_def Let_def)

text \<open>
  The claim at three events: position zero while playing, a position before any session
  exists, and a position of two seconds while playing.
\<close>

theorem onProgress_raw_guard_witness:
  "onProgress_raw 0 playing_provider = (playing_provider, [])
   \<and> onProgress_raw 2 initial_provider = (initial_provider, [])
   \<and> snd (onProgress_raw 2 playing_provider)
       = [ReportPlaybackProgress
            \<lparr> rp_itemId = Some ''i1'', rp_positionTicks = 20000000,
              rp_sessionId = Some ''ps1'', IsPaused = False \<rparr>]"
  using onProgress_raw_guard [of playing_provider 0]
    onProgress_raw_guard [of initial_provider 2]
    onProgress_raw_guard [of playing_provider 2]
  by (simp add: playing_provider_ids initial_provider_ids truthy_def binary64_examples)

subsection \<open>Remote commands\<close>

text \<open>What the handler does by dispatch, for any state.\<close>

lemma onmessage_PlayPause:
  assumes "Command m = Some ''PlayPause''"
  shows "isPlaying (fst (onmessage env canGoBack m s)) = (\<not> onmessage_isPlaying s)"
  using assms by (simp add: onmessage_def playVideo_def pauseVideo_def)

lemma onmessage_Stop:
  assumes "Command m = Some ''Stop''"
  shows "onmessage env canGoBack m s =
           (fst (stopPlayback env s),
            snd (stopPlayback env s) @ (if canGoBack then [Router_back] else []))"
  using assms by (simp add: onmessage_def split_beta)

lemma onmessage_Mute:
  assumes "Command m = Some ''Mute''"
  shows "volume (fst (onmessage env canGoBack m s)) = Some 0"
  using assms by (simp add: onmessage_def setVolume_def)

lemma onmessage_Unmute:
  assumes "Command m = Some ''Unmute''" and "previousVolume s = Some v" and "v \<noteq> 0"
  shows "volume (fst (onmessage env canGoBack m s)) = Some v"
  using assms by (simp add: onmessage_def setVolume_def)

lemma onmessage_DisplayMessage:
  assumes "Command m \<notin> {Some ''PlayPause'', Some ''Stop'', Some ''Mute'', Some ''Unmute'',
             Some ''SetVolume''}"
    and "Name m = Some ''DisplayMessage''"
  shows "onmessage env canGoBack m s = (s, [Alert_alert (Header m) (Text m)])"
  using assms by (simp add: onmessage_def)


lemma onmessage_ignored:
  assumes "Command m \<notin> {Some ''PlayPause'', Some ''Stop'', Some ''Mute'', Some ''Unmute''}"
    and "Name m \<noteq> Some ''DisplayMessage'' \<or> Command m = Some ''SetVolume''"
  shows "onmessage env canGoBack m s = (s, [])"
  using assms by (auto simp: onmessage_def)

text \<open>
  Claim C6 says that a \<open>PlayPause\<close> command sets the play state to the opposite of its value
  at receipt, and that \<open>Unmute\<close> restores the last-known volume. The handler does neither at
  the following inputs. The example item is playing and no progress report has run yet,
  so the installed handler still holds \<open>isPlaying = false\<close>: a \<open>PlayPause\<close> message calls
  \<open>playVideo\<close> and playback goes on. The volume is 50; \<open>setVolume\<close> stores the \<open>volume\<close> of the
  first render, which is null, as the previous volume: after \<open>Mute\<close>, an \<open>Unmute\<close> message
  sets the volume to the default 20.
\<close>

theorem onmessage_stale_closures:
  "isPlaying playing_provider
   \<and> onmessage demo_env True playpause_message playing_provider
       = (playing_provider,
          [Video_resume,
           ReportPlaybackProgress
             \<lparr> rp_itemId = Some ''i1'', rp_positionTicks = 0,
               rp_sessionId = Some ''ps1'', IsPaused = False \<rparr>])
   \<and> volume loud_provider = Some 50
   \<and> volume muted_provider = Some 0
   \<and> volume (fst (onmessage demo_env True unmute_message muted_provider)) = Some 20"
  by (simp add: onmessage_def playpause_message_def unmute_message_def playVideo_def
        setVolume_def loud_provider_eq muted_provider_eq playing_provider_ids)
     (simp add: playing_provider_eq)

section \<open>Properties of the player UI\<close>

subsection \<open>Auxiliary facts\<close>

lemma handleVideoProgress_seeking:
  "isSeeking ui \<Longrightarrow> handleVideoProgress stt d (ui, p) = ((ui, p), [])"
  by (simp add: handleVideoProgress_def)

lemma handleVideoProgress_events_seeking:
  "isSeeking ui \<Longrightarrow> handleVideoProgress_events stt ds (ui, p) = ((ui, p), [])"
  by (induction ds) (simp_all add: handleVideoProgress_seeking)

subsection \<open>Seeking mode\<close>

text \<open>
  Claim C8. While \<open>isSeeking\<close> is true, a progress event of the video changes nothing: the
  slider progress, the cache progress, both buffering flags and the provider stay as they
  were, and nothing is handed to the progress report. The same holds for any run of
  progress events after a drag has begun. Completing the drag sets the slider to the
  chosen value, ends seeking mode and issues exactly one seek to the video element, when
  one is mounted, and never more than one.
\<close>

theorem seeking_suspends_progress:
  "(isSeeking ui \<longrightarrow> handleVideoProgress stt d (ui, p) = ((ui, p), []))
   \<and> handleVideoProgress_events stt ds (handleSliderStart True ui, p)
       = ((handleSliderStart True ui, p), [])
   \<and> fst (handleSliderComplete v (ui, p)) = (ui\<lparr>progress := v, isSeeking := False\<rparr>, p)
   \<and> (videoRef p
        \<longrightarrow> snd (handleSliderComplete v (ui, p)) = [Video_seek (binary64 (v / 10000000))])
   \<and> length (snd (handleSliderComplete v (ui, p))) \<le> 1"
  by (simp add: handleVideoProgress_seeking handleVideoProgress_events_seeking
        handleSliderStart_def handleSliderComplete_def)

text \<open>
  The claim at a drag over the playing example: one event and two events during the drag,
  the seek at its end, and for contrast an event outside a drag, which is passed on.
\<close>

theorem seeking_suspends_progress_witness:
  "handleVideoProgress demo_secondsToTicks demo_progress (handleSliderStart True idle_ui, playing_provider)
     = ((handleSliderStart True idle_ui, playing_provider), [])
   \<and> handleVideoProgress_events demo_secondsToTicks [demo_progress, demo_progress]
        (handleSliderStart True idle_ui, playing_provider)
     = ((handleSliderStart True idle_ui, playing_provider), [])
   \<and> snd (handleSliderComplete 50000000 (handleSliderStart True idle_ui, playing_provider))
     = [Video_seek 5]
   \<and> snd (handleVideoProgress demo_secondsToTicks demo_progress (idle_ui, playing_provider))
     = [Debounced_onProgress demo_progress]"
  using seeking_suspends_progress
    [of "handleSliderStart True idle_ui" demo_secondsToTicks demo_progress playing_provider
        "[demo_progress, demo_progress]" 50000000]
  by (simp add: handleSliderStart_def idle_ui_def playing_provider_ids handleVideoProgress_def
        binary64_examples)

subsection \<open>Ticks and seconds\<close>




end
